theory Spec2Isabelle
  imports Complex_Main "HOL-Library.Multiset"
begin

section \<open>Python values, errors and dictionaries\<close>

text \<open>
  The module \<^verbatim>\<open>nerfstudio/process_data/opf_utils.py\<close> is embedded function by function.
  A Python number (an \<^verbatim>\<open>int\<close> or a finite \<^verbatim>\<open>float\<close>) is modelled by its mathematical
  value, a \<^typ>\<open>real\<close>: Python compares an \<^verbatim>\<open>int\<close> with a \<^verbatim>\<open>float\<close> by value, so
  \<^verbatim>\<open>!=\<close> on numbers is disequality of reals. NaN is outside the model.

  Every exception the module can raise is a constructor of \<open>error\<close>; a function that
  can raise returns \<open>error + 'a\<close>, with \<open>Inl\<close> for the exception.
\<close>

datatype error =
    TypeError
  | ValueError
  | IndexError
  | KeyError
  | UnboundLocalError
  | RuntimeError nat
    \<comment> \<open>\<^verbatim>\<open>RuntimeError(f"Could not find calibrated camera with id {camera_data.id}")\<close>,
        carrying the camera id that the message prints\<close>

definition ebind :: "error + 'a \<Rightarrow> ('a \<Rightarrow> error + 'b) \<Rightarrow> error + 'b" where
  "ebind m f = (case m of Inl e \<Rightarrow> Inl e | Inr x \<Rightarrow> f x)"

text \<open>
  A \<^verbatim>\<open>dict\<close> keeps its keys in insertion order: it is an association list, read by its
  first entry for a key. Python dictionaries never hold a key twice (\<open>wf_dict\<close>).
\<close>

type_synonym 'v dict = "(string \<times> 'v) list"

definition dict_keys :: "'v dict \<Rightarrow> string list" where
  "dict_keys d = map fst d"

definition wf_dict :: "'v dict \<Rightarrow> bool" where
  "wf_dict d = distinct (dict_keys d)"

definition dict_get :: "'v dict \<Rightarrow> string \<Rightarrow> 'v option" where
  \<comment> \<open>\<^verbatim>\<open>d.get(key)\<close>: \<open>None\<close> is Python's \<^verbatim>\<open>None\<close>\<close>
  "dict_get d key = map_of d key"

definition dict_contains :: "'v dict \<Rightarrow> string \<Rightarrow> bool" where
  \<comment> \<open>\<^verbatim>\<open>key in d\<close>\<close>
  "dict_contains d key = (key \<in> set (dict_keys d))"

definition dict_delitem :: "'v dict \<Rightarrow> string \<Rightarrow> error + 'v dict" where
  \<comment> \<open>\<^verbatim>\<open>del d[key]\<close>: raises \<^verbatim>\<open>KeyError\<close> when the key is absent\<close>
  "dict_delitem d key =
     (if dict_contains d key then Inr (filter (\<lambda>kv. fst kv \<noteq> key) d) else Inl KeyError)"

fun dict_setitem :: "'v dict \<Rightarrow> string \<Rightarrow> 'v \<Rightarrow> 'v dict" where
  \<comment> \<open>\<^verbatim>\<open>d[key] = value\<close>: an existing key keeps its position, a new key goes last\<close>
  "dict_setitem [] key v = [(key, v)]"
| "dict_setitem (kv # d) key v =
     (if fst kv = key then (key, v) # d else kv # dict_setitem d key v)"

fun dict_unpack :: "'v dict \<Rightarrow> 'v dict \<Rightarrow> 'v dict" where
  \<comment> \<open>the display \<^verbatim>\<open>{..., **extra}\<close>: the entries of \<open>extra\<close> are stored in their order\<close>
  "dict_unpack d [] = d"
| "dict_unpack d (kv # extra) = dict_unpack (dict_setitem d (fst kv) (snd kv)) extra"

section \<open>The object store\<close>

text \<open>
  Dictionaries are objects: a variable holds a reference, and two variables may hold the
  same one. The store is the list of all dictionary objects, a reference is a position in
  it, and a new object is appended.
\<close>

type_synonym ref = nat
type_synonym heap = "real dict list"

definition valid_ref :: "heap \<Rightarrow> ref \<Rightarrow> bool" where
  "valid_ref h r = (r < length h)"

definition alloc :: "heap \<Rightarrow> real dict \<Rightarrow> ref \<times> heap" where
  "alloc h d = (length h, h @ [d])"

section \<open>Records of pyopf\<close>

record CameraData =
  camera_id :: nat
  uri :: string

record CameraList =
  cameras :: "CameraData list"

record Internals =
  focal_length_px :: real
  principal_point_px :: "real list"
  radial_distortion :: "real list"
  tangential_distortion :: "real list"

record Sensor =
  sensor_uid :: nat
  internals :: Internals

record CalibratedCamera =
  calibrated_id :: nat
  sensor_id :: nat
  position :: "real list"
  orientation_deg :: "real list"

record CalibratedCameras =
  calibrated_cameras :: "CalibratedCamera list"

section \<open>What the module calls of other packages\<close>

text \<open>
  numpy, the standard library's \<^verbatim>\<open>urlparse\<close> and \<^verbatim>\<open>pathlib\<close>, and the package \<^verbatim>\<open>opf_tools\<close>
  are not part of the module: what it calls of them is a field of \<open>externals\<close>, and
  every theorem holds for every value of these fields. For numpy only the values that
  float64 arithmetic and the cast to \<^verbatim>\<open>int64\<close> produce are left open; how many samples
  \<^verbatim>\<open>np.linspace\<close> returns, when it raises, and that its results are floats is modelled below.
\<close>

record externals =
  linspace_sample :: "real \<Rightarrow> real \<Rightarrow> int \<Rightarrow> nat \<Rightarrow> real"
    \<comment> \<open>\<open>linspace_sample start stop num i\<close>: the float \<^verbatim>\<open>np.linspace(start, stop, num)[i]\<close>\<close>
  rint :: "real \<Rightarrow> real"
    \<comment> \<open>\<^verbatim>\<open>np.round\<close> on one float; the result is a float\<close>
  astype_int :: "real list list \<Rightarrow> int list list"
    \<comment> \<open>\<^verbatim>\<open>.astype(int).tolist()\<close> on a matrix of floats\<close>
  urlparse_path :: "string \<Rightarrow> string"
    \<comment> \<open>\<^verbatim>\<open>Path(urlparse(uri).path)\<close>\<close>
  is_absolute :: "string \<Rightarrow> bool"
  absolute_join :: "string \<Rightarrow> string \<Rightarrow> string"
    \<comment> \<open>\<^verbatim>\<open>project_directory.absolute() / path\<close>\<close>
  get_transform_matrix :: "CalibratedCamera \<Rightarrow> real list list"
    \<comment> \<open>\<^verbatim>\<open>get_transform_matrix(calibrated_camera, cam_flip=False)\<close>\<close>

section \<open>filter_cameras\<close>

text \<open>
  \<^verbatim>\<open>np.linspace(start, stop, num)\<close> raises \<^verbatim>\<open>ValueError\<close> for a negative \<open>num\<close>; otherwise it
  returns an array of \<open>num\<close> floats. \<^verbatim>\<open>np.round\<close> rounds each of them, and its result is
  again an array of floats.
\<close>

definition np_linspace :: "externals \<Rightarrow> real \<Rightarrow> real \<Rightarrow> int \<Rightarrow> error + real list" where
  "np_linspace ext start stop num =
     (if num < 0 then Inl ValueError
      else Inr (map (linspace_sample ext start stop num) [0..<nat num]))"

definition np_round :: "externals \<Rightarrow> real list \<Rightarrow> real list" where
  "np_round ext xs = map (rint ext) xs"

text \<open>
  A subscript of a Python list is an \<^verbatim>\<open>int\<close> (negative ones count from the end) or it is
  refused: a float, also a \<^verbatim>\<open>numpy.float64\<close>, raises \<^verbatim>\<open>TypeError\<close> whatever its value.
\<close>

datatype subscript = IntIndex int | FloatIndex real

fun list_getitem :: "'a list \<Rightarrow> subscript \<Rightarrow> error + 'a" where
  "list_getitem xs (FloatIndex x) = Inl TypeError"
| "list_getitem xs (IntIndex i) =
     (if 0 \<le> i \<and> i < int (length xs) then Inr (xs ! nat i)
      else if i < 0 \<and> - int (length xs) \<le> i then Inr (xs ! nat (int (length xs) + i))
      else Inl IndexError)"

fun list_getitems :: "'a list \<Rightarrow> subscript list \<Rightarrow> error + 'a list" where
  \<comment> \<open>the comprehension \<^verbatim>\<open>[xs[i] for i in idx]\<close>\<close>
  "list_getitems xs [] = Inr []"
| "list_getitems xs (i # idx) =
     ebind (list_getitem xs i) (\<lambda>y. ebind (list_getitems xs idx) (\<lambda>ys. Inr (y # ys)))"

definition subsample_idx :: "externals \<Rightarrow> int \<Rightarrow> int \<Rightarrow> error + real list" where
  \<comment> \<open>\<^verbatim>\<open>idx = np.round(np.linspace(0, num_orig_images - 1, max_num_images))\<close>\<close>
  "subsample_idx ext num_orig_images max_num_images =
     ebind (np_linspace ext 0 (of_int (num_orig_images - 1)) max_num_images)
       (\<lambda>samples. Inr (np_round ext samples))"

definition filter_cameras :: "externals \<Rightarrow> CameraList \<Rightarrow> int \<Rightarrow> error + CameraData list" where
  "filter_cameras ext camera_list max_num_images =
     (let num_orig_images = int (length (cameras camera_list)) in
      if max_num_images \<noteq> - 1 \<and> num_orig_images > max_num_images then
        ebind (subsample_idx ext num_orig_images max_num_images)
          (\<lambda>idx. list_getitems (cameras camera_list) (map FloatIndex idx))
      else Inr (cameras camera_list))"

section \<open>get_camera_absolute_path\<close>

definition get_camera_absolute_path :: "externals \<Rightarrow> CameraData \<Rightarrow> string \<Rightarrow> string" where
  "get_camera_absolute_path ext camera project_directory =
     (let path = urlparse_path ext (uri camera) in
      if \<not> is_absolute ext path then absolute_join ext project_directory path else path)"

section \<open>extract_intrinsics\<close>

definition py_int :: "real \<Rightarrow> int" where
  \<comment> \<open>\<^verbatim>\<open>int(x)\<close> truncates towards zero\<close>
  "py_int x = (if 0 \<le> x then \<lfloor>x\<rfloor> else \<lceil>x\<rceil>)"

definition ndarray_getitem :: "real list \<Rightarrow> nat \<Rightarrow> error + real" where
  "ndarray_getitem xs i = (if i < length xs then Inr (xs ! i) else Inl IndexError)"

definition intrinsics_keys :: "string list" where
  "intrinsics_keys =
     [''fl_x'', ''fl_y'', ''cx'', ''cy'', ''w'', ''h'', ''k1'', ''k2'', ''k3'', ''p1'', ''p2'']"

definition extract_intrinsics :: "Sensor \<Rightarrow> real list \<Rightarrow> error + real dict" where
  "extract_intrinsics sensor image_size_px =
     (let i = internals sensor in
      ebind (ndarray_getitem (principal_point_px i) 0) (\<lambda>cx.
      ebind (ndarray_getitem (principal_point_px i) 1) (\<lambda>cy.
      ebind (ndarray_getitem image_size_px 0) (\<lambda>w.
      ebind (ndarray_getitem image_size_px 1) (\<lambda>h.
      ebind (ndarray_getitem (radial_distortion i) 0) (\<lambda>k1.
      ebind (ndarray_getitem (radial_distortion i) 1) (\<lambda>k2.
      ebind (ndarray_getitem (radial_distortion i) 2) (\<lambda>k3.
      ebind (ndarray_getitem (tangential_distortion i) 0) (\<lambda>p1.
      ebind (ndarray_getitem (tangential_distortion i) 1) (\<lambda>p2.
        Inr [(''fl_x'', focal_length_px i),
             (''fl_y'', focal_length_px i),
             (''cx'', cx),
             (''cy'', cy),
             (''w'', of_int (py_int w)),
             (''h'', of_int (py_int h)),
             (''k1'', k1),
             (''k2'', k2),
             (''k3'', k3),
             (''p1'', p1),
             (''p2'', p2)]))))))))))"

definition IntrinsicsRecord :: "real dict \<Rightarrow> bool" where
  \<comment> \<open>a dictionary whose keys are exactly the eleven fixed names\<close>
  "IntrinsicsRecord d = (wf_dict d \<and> set (dict_keys d) = set intrinsics_keys)"

section \<open>extract_common_intrinsics\<close>

text \<open>
  \<^verbatim>\<open>common_intrinsics = intrinsics_list[0]\<close> binds a second name to the first record's
  object; \<^verbatim>\<open>del common_intrinsics[key]\<close> therefore writes to the store at that reference.
  The inner loop runs over the entries the scanned record has when the loop starts. When
  the scanned record is the object \<open>common_intrinsics\<close> itself nothing is deleted
  (\<open>scan_items_self\<close> below), so Python's iterator never sees the dictionary change.
\<close>

fun scan_items :: "heap \<Rightarrow> ref \<Rightarrow> real dict \<Rightarrow> heap" where
  "scan_items h common_intrinsics [] = h"
| "scan_items h common_intrinsics (kv # items) =
     (if dict_get (h ! common_intrinsics) (fst kv) \<noteq> Some (snd kv) then
        (case dict_delitem (h ! common_intrinsics) (fst kv) of
           Inr d \<Rightarrow> scan_items (h[common_intrinsics := d]) common_intrinsics items
         | Inl e \<Rightarrow> scan_items h common_intrinsics items)
      else scan_items h common_intrinsics items)"

fun scan_records :: "heap \<Rightarrow> ref \<Rightarrow> ref list \<Rightarrow> heap" where
  "scan_records h common_intrinsics [] = h"
| "scan_records h common_intrinsics (intrinsics # rest) =
     scan_records (scan_items h common_intrinsics (h ! intrinsics)) common_intrinsics rest"

definition extract_common_intrinsics :: "heap \<Rightarrow> ref list \<Rightarrow> ref \<times> heap" where
  "extract_common_intrinsics h intrinsics_list =
     (if length intrinsics_list = 0 then alloc h []
      else
        let common_intrinsics = intrinsics_list ! 0 in
        (common_intrinsics, scan_records h common_intrinsics intrinsics_list))"

definition common_value :: "heap \<Rightarrow> ref list \<Rightarrow> real dict" where
  \<comment> \<open>the dictionary that the returned reference denotes when the call returns\<close>
  "common_value h intrinsics_list =
     (case extract_common_intrinsics h intrinsics_list of (r, h') \<Rightarrow> h' ! r)"

definition heap_after :: "heap \<Rightarrow> ref list \<Rightarrow> heap" where
  "heap_after h intrinsics_list = snd (extract_common_intrinsics h intrinsics_list)"

section \<open>make_transforms\<close>

datatype json =
    Num real
  | Str string
  | Matrix "int list list"
  | Frames "(string \<times> json) list list"

definition frame_intrinsics :: "real dict \<Rightarrow> real dict \<Rightarrow> json dict" where
  \<comment> \<open>\<^verbatim>\<open>{key: value for key, value in sensor.items() if key not in common_intrinsics}\<close>\<close>
  "frame_intrinsics sensor_intrinsics common =
     map (\<lambda>kv. (fst kv, Num (snd kv)))
         (filter (\<lambda>kv. \<not> dict_contains common (fst kv)) sensor_intrinsics)"

definition make_frame :: "int list list \<Rightarrow> string \<Rightarrow> real dict \<Rightarrow> real dict \<Rightarrow> json dict" where
  "make_frame transform_matrix path sensor_intrinsics common =
     dict_unpack [(''transform_matrix'', Matrix transform_matrix), (''file_path'', Str path)]
                 (frame_intrinsics sensor_intrinsics common)"

text \<open>
  The loop over \<^verbatim>\<open>camera_datas\<close>. Its state is the store, the list \<^verbatim>\<open>frames\<close> and the local
  variable \<^verbatim>\<open>common_intrinsics\<close>, which is unbound (\<open>None\<close>) until the body has run once.
  The table \<^verbatim>\<open>sensor_id_to_intrinsics\<close> maps a sensor id to a reference.
\<close>

fun frames_loop ::
  "externals \<Rightarrow> CalibratedCameras \<Rightarrow> (nat \<times> ref) list \<Rightarrow> string \<Rightarrow>
   heap \<Rightarrow> json dict list \<Rightarrow> ref option \<Rightarrow> CameraData list \<Rightarrow>
   (error + json dict list \<times> ref option) \<times> heap" where
  "frames_loop ext calibrated sensor_id_to_intrinsics project_dir h frames common [] =
     (Inr (frames, common), h)"
| "frames_loop ext calibrated sensor_id_to_intrinsics project_dir h frames common
     (camera_data # rest) =
     (let path = get_camera_absolute_path ext camera_data project_dir in
      case find (\<lambda>camera. calibrated_id camera = camera_id camera_data)
                (calibrated_cameras calibrated) of
        None \<Rightarrow> (Inl (RuntimeError (camera_id camera_data)), h)
      | Some calibrated_camera \<Rightarrow>
          (let transform_matrix = astype_int ext (get_transform_matrix ext calibrated_camera) in
           case extract_common_intrinsics h (map snd sensor_id_to_intrinsics) of
             (common_intrinsics, h') \<Rightarrow>
               (case map_of sensor_id_to_intrinsics (sensor_id calibrated_camera) of
                  None \<Rightarrow> (Inl KeyError, h')
                | Some sensor_intrinsics \<Rightarrow>
                    frames_loop ext calibrated sensor_id_to_intrinsics project_dir h'
                      (frames @ [make_frame transform_matrix path
                                   (h' ! sensor_intrinsics) (h' ! common_intrinsics)])
                      (Some common_intrinsics) rest)))"

definition make_transforms ::
  "externals \<Rightarrow> heap \<Rightarrow> CameraData list \<Rightarrow> CalibratedCameras \<Rightarrow> (nat \<times> ref) list \<Rightarrow>
   string \<Rightarrow> (error + json dict) \<times> heap" where
  "make_transforms ext h camera_datas calibrated sensor_id_to_intrinsics project_dir =
     (case frames_loop ext calibrated sensor_id_to_intrinsics project_dir h [] None
             camera_datas of
        (Inl e, h') \<Rightarrow> (Inl e, h')
      | (Inr (frames, None), h') \<Rightarrow> (Inl UnboundLocalError, h')
      | (Inr (frames, Some common_intrinsics), h') \<Rightarrow>
          (Inr (dict_unpack [(''camera_model'', Str ''OPENCV''), (''frames'', Frames frames)]
                            (map (\<lambda>kv. (fst kv, Num (snd kv))) (h' ! common_intrinsics))),
           h'))"

section \<open>Auxiliary notions and example inputs\<close>

text \<open>
  \<open>agrees d items k\<close>: no entry of \<open>items\<close> under the key \<open>k\<close> makes the reducer delete \<open>k\<close>
  from \<open>d\<close>; \<open>agrees_all\<close> says so for every record of a list of references.
\<close>

definition agrees :: "real dict \<Rightarrow> real dict \<Rightarrow> string \<Rightarrow> bool" where
  "agrees d items k = (\<forall>v. (k, v) \<in> set items \<longrightarrow> map_of d k = Some v)"

definition agrees_all :: "heap \<Rightarrow> ref list \<Rightarrow> real dict \<Rightarrow> string \<Rightarrow> bool" where
  "agrees_all h rs d k = (\<forall>r\<in>set rs. agrees d (h ! r) k)"

text \<open>Two sensors that differ in their focal length only, and a project that uses them.\<close>

definition sensor_a :: Sensor where
  "sensor_a = \<lparr>sensor_uid = 10,
     internals = \<lparr>focal_length_px = 1000, principal_point_px = [320, 240],
                  radial_distortion = [0, 0, 0], tangential_distortion = [0, 0]\<rparr>\<rparr>"

definition record_a :: "real dict" where
  "record_a = [(''fl_x'', 1000), (''fl_y'', 1000), (''cx'', 320), (''cy'', 240),
               (''w'', 640), (''h'', 480), (''k1'', 0), (''k2'', 0), (''k3'', 0),
               (''p1'', 0), (''p2'', 0)]"

definition record_b :: "real dict" where
  "record_b = [(''fl_x'', 2000), (''fl_y'', 2000), (''cx'', 320), (''cy'', 240),
               (''w'', 640), (''h'', 480), (''k1'', 0), (''k2'', 0), (''k3'', 0),
               (''p1'', 0), (''p2'', 0)]"

definition two_sensor_heap :: heap where
  "two_sensor_heap = [record_a, record_b]"

definition two_sensor_table :: "(nat \<times> ref) list" where
  "two_sensor_table = [(10, 0), (20, 1)]"

definition three_cameras :: CameraList where
  "three_cameras = \<lparr>cameras = [\<lparr>camera_id = 1, uri = ''a.jpg''\<rparr>,
                               \<lparr>camera_id = 2, uri = ''b.jpg''\<rparr>,
                               \<lparr>camera_id = 3, uri = ''c.jpg''\<rparr>]\<rparr>"

definition two_calibrated :: CalibratedCameras where
  "two_calibrated = \<lparr>calibrated_cameras =
     [\<lparr>calibrated_id = 1, sensor_id = 10, position = [0, 0, 0], orientation_deg = [0, 0, 0]\<rparr>,
      \<lparr>calibrated_id = 2, sensor_id = 20, position = [1, 0, 0], orientation_deg = [0, 0, 0]\<rparr>,
      \<lparr>calibrated_id = 2, sensor_id = 10, position = [5, 5, 5], orientation_deg = [0, 0, 0]\<rparr>]\<rparr>"

text \<open>
  One choice of the external functions, for the example runs: relative paths, the position
  as the pose matrix and, for numpy, exact arithmetic, which agrees with float64 on the
  small whole numbers the examples use.
\<close>

definition plain_externals :: externals where
  "plain_externals = \<lparr>
     linspace_sample = (\<lambda>start stop num i. start + real i * ((stop - start) / real_of_int (num - 1))),
     rint = (\<lambda>x. of_int (round x)),
     astype_int = map (map py_int),
     urlparse_path = (\<lambda>u. u), is_absolute = (\<lambda>p. False),
     absolute_join = (\<lambda>dir p. dir @ ''/'' @ p),
     get_transform_matrix = (\<lambda>c. [position c])\<rparr>"

definition frames_disjoint :: "json dict list \<Rightarrow> real dict \<Rightarrow> bool" where
  \<comment> \<open>the loop's invariant: apart from its two fixed keys, a frame shares no key with the
      dictionary \<open>common\<close>\<close>
  "frames_disjoint frames common =
     (\<forall>frame\<in>set frames. \<forall>k. k \<noteq> ''transform_matrix'' \<longrightarrow> k \<noteq> ''file_path'' \<longrightarrow>
        dict_contains frame k \<longrightarrow> \<not> dict_contains common k)"

definition first_calibrated :: "CalibratedCamera list \<Rightarrow> nat \<Rightarrow> nat \<Rightarrow> bool" where
  \<comment> \<open>position \<open>j\<close> holds the first record, in list order, whose id is \<open>ident\<close>\<close>
  "first_calibrated cals ident j =
     (j < length cals \<and> calibrated_id (cals ! j) = ident \<and>
      (\<forall>j'<j. calibrated_id (cals ! j') \<noteq> ident))"

definition frame_built ::
  "externals \<Rightarrow> CalibratedCameras \<Rightarrow> (nat \<times> ref) list \<Rightarrow> string \<Rightarrow> heap \<Rightarrow> ref \<Rightarrow>
   CameraData \<Rightarrow> json dict \<Rightarrow> bool" where
  \<comment> \<open>\<open>frame\<close> is the frame of \<open>camera_data\<close>, built in the store \<open>h\<close> from the first record
      that \<open>find\<close> returns for its id\<close>
  "frame_built ext calibrated table project_dir h c camera_data frame =
     (\<exists>cc s. find (\<lambda>camera. calibrated_id camera = camera_id camera_data)
                (calibrated_cameras calibrated) = Some cc \<and>
             map_of table (sensor_id cc) = Some s \<and>
             frame = make_frame (astype_int ext (get_transform_matrix ext cc))
                       (get_camera_absolute_path ext camera_data project_dir) (h ! s) (h ! c))"

text \<open>The second camera alone, and the document assembled for it.\<close>

definition camera_2 :: CameraData where
  "camera_2 = \<lparr>camera_id = 2, uri = ''b.jpg''\<rparr>"

definition frame_2 :: "json dict" where
  "frame_2 = [(''transform_matrix'', Matrix [[1, 0, 0]]), (''file_path'', Str ''/p/b.jpg''),
              (''fl_x'', Num 2000), (''fl_y'', Num 2000)]"

definition shared_part :: "real dict" where
  "shared_part = [(''cx'', 320), (''cy'', 240), (''w'', 640), (''h'', 480), (''k1'', 0),
                  (''k2'', 0), (''k3'', 0), (''p1'', 0), (''p2'', 0)]"

definition document_2 :: "json dict" where
  "document_2 = [(''camera_model'', Str ''OPENCV''), (''frames'', Frames [frame_2]),
                 (''cx'', Num 320), (''cy'', Num 240), (''w'', Num 640), (''h'', Num 480),
                 (''k1'', Num 0), (''k2'', Num 0), (''k3'', Num 0), (''p1'', Num 0),
                 (''p2'', Num 0)]"

text \<open>The first camera alone, and the document assembled for it.\<close>

definition camera_1 :: CameraData where
  "camera_1 = \<lparr>camera_id = 1, uri = ''a.jpg''\<rparr>"

definition frame_1 :: "json dict" where
  "frame_1 = [(''transform_matrix'', Matrix [[0, 0, 0]]), (''file_path'', Str ''/p/a.jpg'')]"

definition document_1 :: "json dict" where
  "document_1 = [(''camera_model'', Str ''OPENCV''), (''frames'', Frames [frame_1]),
                 (''cx'', Num 320), (''cy'', Num 240), (''w'', Num 640), (''h'', Num 480),
                 (''k1'', Num 0), (''k2'', Num 0), (''k3'', Num 0), (''p1'', Num 0),
                 (''p2'', Num 0)]"

section \<open>The reducer: what the scan leaves in the store\<close>

lemma map_of_filter_key:
  "map_of (filter (\<lambda>kv. P (fst kv)) d) k = (if P k then map_of d k else None)"
  by (induction d) auto

lemma distinct_filter_keys: "distinct (map fst d) \<Longrightarrow> distinct (map fst (filter P d))"
  by (induction d) auto

lemma agrees_self: "distinct (map fst d) \<Longrightarrow> agrees d d k"
  by (auto simp: agrees_def)

text \<open>
  One pass of the inner loop replaces the accumulator by what is left of it once every
  key that some scanned entry disagrees on is gone; nothing else in the store changes.
\<close>

lemma scan_items_char:
  "c < length h \<Longrightarrow>
   scan_items h c items = h[c := filter (\<lambda>kv. agrees (h ! c) items (fst kv)) (h ! c)]"
proof (induction items arbitrary: h)
  case Nil
  have "filter (\<lambda>kv. agrees (h ! c) [] (fst kv)) (h ! c) = h ! c"
    by (simp add: agrees_def)
  then show ?case by simp
next
  case (Cons kv items)
  let ?d = "h ! c"
  obtain k v where kv: "kv = (k, v)" by (cases kv)
  show ?case
  proof (cases "map_of ?d k \<noteq> Some v \<and> k \<in> fst ` set ?d")
    case True
    let ?d1 = "filter (\<lambda>x. fst x \<noteq> k) ?d"
    let ?h1 = "h[c := ?d1]"
    have step: "scan_items h c (kv # items) = scan_items ?h1 c items"
      using True by (simp add: kv dict_get_def dict_delitem_def dict_contains_def dict_keys_def)
    have len: "c < length ?h1" using Cons.prems by simp
    have h1c: "?h1 ! c = ?d1" using Cons.prems by simp
    have m1: "map_of ?d1 k' = (if k' \<noteq> k then map_of ?d k' else None)" for k'
      using map_of_filter_key [of "\<lambda>x. x \<noteq> k" ?d k'] by simp
    have "filter (\<lambda>x. agrees ?d1 items (fst x)) ?d1
          = filter (\<lambda>x. agrees ?d (kv # items) (fst x)) ?d"
      unfolding filter_filter
      by (rule filter_cong) (use True in \<open>auto simp: agrees_def kv m1\<close>)
    then show ?thesis
      using Cons.IH [OF len] step h1c by simp
  next
    case False
    have step: "scan_items h c (kv # items) = scan_items h c items"
      using False
      by (auto simp add: kv dict_get_def dict_delitem_def dict_contains_def dict_keys_def)
    have "filter (\<lambda>x. agrees ?d items (fst x)) ?d
          = filter (\<lambda>x. agrees ?d (kv # items) (fst x)) ?d"
      by (rule filter_cong) (use False in \<open>auto simp: agrees_def kv rev_image_eqI\<close>)
    then show ?thesis
      using Cons.IH [OF Cons.prems] step by simp
  qed
qed

text \<open>
  Scanning the accumulator's own object deletes nothing, so the dictionary never changes
  under the iterator that runs over it.
\<close>

lemma scan_items_self:
  assumes "c < length h" and "wf_dict (h ! c)"
  shows "scan_items h c (h ! c) = h"
proof -
  have "filter (\<lambda>kv. agrees (h ! c) (h ! c) (fst kv)) (h ! c) = h ! c"
    using assms(2) by (simp add: agrees_self wf_dict_def dict_keys_def)
  then show ?thesis
    using scan_items_char [OF assms(1), of "h ! c"] by simp
qed

lemma scan_records_char:
  "c < length h \<Longrightarrow> distinct (map fst (h ! c)) \<Longrightarrow>
   scan_records h c rs = h[c := filter (\<lambda>kv. agrees_all h rs (h ! c) (fst kv)) (h ! c)]"
proof (induction rs arbitrary: h)
  case Nil
  have "filter (\<lambda>kv. agrees_all h [] (h ! c) (fst kv)) (h ! c) = h ! c"
    by (simp add: agrees_all_def)
  then show ?case by simp
next
  case (Cons r rs)
  let ?d = "h ! c"
  let ?d1 = "filter (\<lambda>kv. agrees ?d (h ! r) (fst kv)) ?d"
  let ?h1 = "h[c := ?d1]"
  have step: "scan_records h c (r # rs) = scan_records ?h1 c rs"
    using scan_items_char [OF Cons.prems(1), of "h ! r"] by simp
  have len: "c < length ?h1" using Cons.prems by simp
  have h1c: "?h1 ! c = ?d1" using Cons.prems by simp
  have d1: "distinct (map fst ?d1)" using Cons.prems(2) by (rule distinct_filter_keys)
  have m1: "map_of ?d1 k = (if agrees ?d (h ! r) k then map_of ?d k else None)" for k
    using map_of_filter_key [of "\<lambda>k. agrees ?d (h ! r) k" ?d k] by simp
  have key: "agrees_all ?h1 rs ?d1 k = agrees_all h rs ?d k" if "agrees ?d (h ! r) k" for k
  proof -
    have "agrees ?d1 (?h1 ! r') k = agrees ?d (h ! r') k" for r'
    proof (cases "r' = c")
      case True
      then show ?thesis
        using agrees_self [OF d1] agrees_self [OF Cons.prems(2)] h1c by simp
    next
      case False
      have "map_of ?d1 k = map_of ?d k" using m1 [of k] that by simp
      then show ?thesis using False by (simp add: agrees_def)
    qed
    then show ?thesis by (simp add: agrees_all_def)
  qed
  have "filter (\<lambda>kv. agrees_all ?h1 rs ?d1 (fst kv)) ?d1
        = filter (\<lambda>kv. agrees_all h (r # rs) ?d (fst kv)) ?d"
    unfolding filter_filter
    by (rule filter_cong) (use key in \<open>auto simp: agrees_all_def\<close>)
  then show ?case
    using Cons.IH [OF len] d1 step h1c by simp
qed

lemma extract_common_intrinsics_char:
  assumes "rs \<noteq> []" "hd rs < length h" "distinct (map fst (h ! hd rs))"
  shows "extract_common_intrinsics h rs =
         (hd rs, h[hd rs := filter (\<lambda>kv. agrees_all h rs (h ! hd rs) (fst kv)) (h ! hd rs)])"
  using assms scan_records_char [of "hd rs" h rs]
  by (simp add: extract_common_intrinsics_def hd_conv_nth Let_def)

lemma common_value_Nil: "common_value h [] = []"
  by (simp add: common_value_def extract_common_intrinsics_def alloc_def)

lemma common_value_char:
  assumes "rs \<noteq> []" "hd rs < length h" "distinct (map fst (h ! hd rs))"
  shows "common_value h rs = filter (\<lambda>kv. agrees_all h rs (h ! hd rs) (fst kv)) (h ! hd rs)"
  using assms by (simp add: common_value_def extract_common_intrinsics_char)

lemma common_value_pairs:
  assumes ne: "rs \<noteq> []"
    and ok: "\<forall>r\<in>set rs. valid_ref h r \<and> IntrinsicsRecord (h ! r)"
  shows "((k, v) \<in> set (common_value h rs)) = (\<forall>r\<in>set rs. (k, v) \<in> set (h ! r))"
proof -
  let ?c = "hd rs"
  have c: "?c \<in> set rs" using ne by simp
  have dist: "distinct (map fst (h ! r))" if "r \<in> set rs" for r
    using ok that by (simp add: IntrinsicsRecord_def wf_dict_def dict_keys_def)
  have keys: "fst ` set (h ! r) = fst ` set (h ! ?c)" if "r \<in> set rs" for r
    using ok that c by (simp add: IntrinsicsRecord_def dict_keys_def)
  have cv: "common_value h rs = filter (\<lambda>kv. agrees_all h rs (h ! ?c) (fst kv)) (h ! ?c)"
    using ne c ok dist by (intro common_value_char) (auto simp: valid_ref_def)
  show ?thesis
  proof
    assume "(k, v) \<in> set (common_value h rs)"
    then have in_c: "(k, v) \<in> set (h ! ?c)" and ag: "agrees_all h rs (h ! ?c) k"
      by (simp_all add: cv)
    have mc: "map_of (h ! ?c) k = Some v"
      using in_c dist [OF c] by simp
    show "\<forall>r\<in>set rs. (k, v) \<in> set (h ! r)"
    proof
      fix r assume r: "r \<in> set rs"
      have "k \<in> fst ` set (h ! r)"
        using keys [OF r] in_c by (metis fst_conv image_eqI)
      then obtain v' where v': "(k, v') \<in> set (h ! r)" by auto
      with ag r have "map_of (h ! ?c) k = Some v'"
        by (simp add: agrees_all_def agrees_def)
      with mc v' show "(k, v) \<in> set (h ! r)" by simp
    qed
  next
    assume all: "\<forall>r\<in>set rs. (k, v) \<in> set (h ! r)"
    then have in_c: "(k, v) \<in> set (h ! ?c)" using c by blast
    have "agrees (h ! ?c) (h ! r) k" if r: "r \<in> set rs" for r
      unfolding agrees_def
    proof (intro allI impI)
      fix v' assume "(k, v') \<in> set (h ! r)"
      moreover have "(k, v) \<in> set (h ! r)" using all r by blast
      ultimately have "v' = v"
        using dist [OF r] by (meson eq_key_imp_eq_value)
      then show "map_of (h ! ?c) k = Some v'"
        using in_c dist [OF c] by simp
    qed
    then show "(k, v) \<in> set (common_value h rs)"
      using in_c by (simp add: cv agrees_all_def)
  qed
qed

lemma common_value_twice:
  assumes "a < length h" "distinct (map fst (h ! a))" "h ! b = h ! a"
  shows "common_value h [a, b] = h ! a"
proof -
  have "agrees_all h [a, b] (h ! a) k" for k
    using assms by (simp add: agrees_all_def agrees_self)
  then show ?thesis
    using assms common_value_char [of "[a, b]" h] by simp
qed

lemma wf_common_value:
  assumes "rs \<noteq> []" and "\<forall>r\<in>set rs. valid_ref h r \<and> IntrinsicsRecord (h ! r)"
  shows "distinct (map fst (common_value h rs))"
proof -
  have "hd rs \<in> set rs" using assms(1) by simp
  then have "hd rs < length h" "distinct (map fst (h ! hd rs))"
    using assms(2) by (auto simp: valid_ref_def IntrinsicsRecord_def wf_dict_def dict_keys_def)
  then show ?thesis
    using assms(1) by (simp add: common_value_char distinct_filter_keys)
qed

lemma IntrinsicsRecord_examples:
  "IntrinsicsRecord record_a" "IntrinsicsRecord record_b"
  by (simp_all add: IntrinsicsRecord_def wf_dict_def dict_keys_def intrinsics_keys_def
      record_a_def record_b_def)

lemma two_sensor_heap_nth:
  "two_sensor_heap ! 0 = record_a" "two_sensor_heap ! 1 = record_b"
  "two_sensor_heap ! Suc 0 = record_b" "length two_sensor_heap = 2"
  by (simp_all add: two_sensor_heap_def)

lemma two_sensor_heap_ok:
  "\<forall>r\<in>set [0, 1]. valid_ref two_sensor_heap r \<and> IntrinsicsRecord (two_sensor_heap ! r)"
  by (simp add: valid_ref_def two_sensor_heap_nth IntrinsicsRecord_examples)

section \<open>Claims about extract_common_intrinsics\<close>

text \<open>
  C7. On the empty sequence the reducer returns an empty dictionary. On a non-empty
  sequence of IntrinsicsRecords (valid references to dictionaries with the fixed key set)
  the returned dictionary holds exactly the key/value pairs that every input record
  holds.
\<close>

theorem extract_common_intrinsics_exact:
  "common_value h [] = [] \<and>
   (rs \<noteq> [] \<longrightarrow> (\<forall>r\<in>set rs. valid_ref h r \<and> IntrinsicsRecord (h ! r)) \<longrightarrow>
      (\<forall>k v. ((k, v) \<in> set (common_value h rs)) = (\<forall>r\<in>set rs. (k, v) \<in> set (h ! r))))"
  using common_value_Nil common_value_pairs by blast

theorem extract_common_intrinsics_exact_witness:
  "[0, 1] \<noteq> ([] :: ref list) \<and>
   valid_ref two_sensor_heap 0 \<and> IntrinsicsRecord (two_sensor_heap ! 0) \<and>
   valid_ref two_sensor_heap 1 \<and> IntrinsicsRecord (two_sensor_heap ! 1) \<and>
   (''cx'', 320) \<in> set (common_value two_sensor_heap [0, 1]) \<and>
   (''fl_x'', 1000) \<notin> set (common_value two_sensor_heap [0, 1]) \<and>
   (''fl_x'', 2000) \<notin> set (common_value two_sensor_heap [0, 1])"
proof -
  have ok: "\<forall>r\<in>set [0, 1]. valid_ref two_sensor_heap r \<and> IntrinsicsRecord (two_sensor_heap ! r)"
    by (rule two_sensor_heap_ok)
  have eq: "((k, v) \<in> set (common_value two_sensor_heap [0, 1]))
            = (\<forall>r\<in>set [0, 1]. (k, v) \<in> set (two_sensor_heap ! r))" for k v
    using extract_common_intrinsics_exact [of two_sensor_heap "[0, 1]"] ok by blast
  have "(''cx'', 320) \<in> set (common_value two_sensor_heap [0, 1])"
    unfolding eq by (simp add: two_sensor_heap_nth record_a_def record_b_def)
  moreover have "(''fl_x'', 1000) \<notin> set (common_value two_sensor_heap [0, 1])"
    unfolding eq by (simp add: two_sensor_heap_nth record_a_def record_b_def)
  moreover have "(''fl_x'', 2000) \<notin> set (common_value two_sensor_heap [0, 1])"
    unfolding eq by (simp add: two_sensor_heap_nth record_a_def record_b_def)
  ultimately show ?thesis
    using ok by simp
qed

text \<open>
  C8. As a function of the values, the reducer does not depend on the order of its input:
  applied in the same store to two sequences of IntrinsicsRecords that are permutations of
  each other it returns equal mappings. Applied to a record listed twice (the same object
  or two objects with the same content) it returns that record's dictionary unchanged,
  and applied to the empty list it returns the empty dictionary.
\<close>

theorem extract_common_intrinsics_permutation:
  "((\<forall>r\<in>set rs. valid_ref h r \<and> IntrinsicsRecord (h ! r)) \<longrightarrow> mset rs' = mset rs \<longrightarrow>
      map_of (common_value h rs') = map_of (common_value h rs)) \<and>
   (valid_ref h a \<longrightarrow> IntrinsicsRecord (h ! a) \<longrightarrow> h ! b = h ! a \<longrightarrow>
      common_value h [a, b] = h ! a) \<and>
   common_value h [] = []"
proof (intro conjI impI)
  assume ok: "\<forall>r\<in>set rs. valid_ref h r \<and> IntrinsicsRecord (h ! r)" and perm: "mset rs' = mset rs"
  have same: "set rs' = set rs" using perm by (rule mset_eq_setD)
  show "map_of (common_value h rs') = map_of (common_value h rs)"
  proof (cases "rs = []")
    case True
    then show ?thesis using perm by simp
  next
    case False
    then have ne': "rs' \<noteq> []" using same by auto
    have ok': "\<forall>r\<in>set rs'. valid_ref h r \<and> IntrinsicsRecord (h ! r)"
      using ok same by simp
    have pairs: "set (common_value h rs') = set (common_value h rs)"
      using common_value_pairs [OF False ok] common_value_pairs [OF ne' ok'] same by auto
    show ?thesis
    proof
      fix k
      have "(map_of (common_value h rs') k = Some v) = (map_of (common_value h rs) k = Some v)"
        for v
        using pairs wf_common_value [OF False ok] wf_common_value [OF ne' ok'] by simp
      then show "map_of (common_value h rs') k = map_of (common_value h rs) k"
        by (metis option.exhaust)
    qed
  qed
next
  assume "valid_ref h a" "IntrinsicsRecord (h ! a)" "h ! b = h ! a"
  then show "common_value h [a, b] = h ! a"
    by (intro common_value_twice)
       (simp_all add: valid_ref_def IntrinsicsRecord_def wf_dict_def dict_keys_def)
next
  show "common_value h [] = []" by (rule common_value_Nil)
qed

theorem extract_common_intrinsics_permutation_witness:
  "valid_ref two_sensor_heap 0 \<and> IntrinsicsRecord (two_sensor_heap ! 0) \<and>
   valid_ref two_sensor_heap 1 \<and> IntrinsicsRecord (two_sensor_heap ! 1) \<and>
   mset [1, 0] = mset [0, 1 :: ref] \<and>
   map_of (common_value two_sensor_heap [1, 0]) = map_of (common_value two_sensor_heap [0, 1]) \<and>
   two_sensor_heap ! 0 = two_sensor_heap ! 0 \<and>
   common_value two_sensor_heap [0, 0] = record_a"
proof -
  have ok: "\<forall>r\<in>set [0, 1]. valid_ref two_sensor_heap r \<and> IntrinsicsRecord (two_sensor_heap ! r)"
    by (rule two_sensor_heap_ok)
  have perm: "mset [1, 0] = mset [0, 1 :: ref]" by simp
  note inst = extract_common_intrinsics_permutation
    [of "[0, 1]" two_sensor_heap "[1, 0]" 0 0]
  have "map_of (common_value two_sensor_heap [1, 0]) = map_of (common_value two_sensor_heap [0, 1])"
    using inst ok perm by blast
  moreover have "common_value two_sensor_heap [0, 0] = record_a"
    using inst ok by (simp add: two_sensor_heap_nth)
  ultimately show ?thesis
    using ok perm by simp
qed

text \<open>
  C1 (the code does otherwise). The reducer works on the caller's first record, not on a
  copy: for two records that differ in \<open>fl_x\<close> and \<open>fl_y\<close>, the first record has lost both
  keys when the call returns. The other records are never written to.
\<close>

theorem extract_common_intrinsics_mutates_first_record:
  "dict_get (two_sensor_heap ! 0) ''fl_x'' = Some 1000 \<and>
   dict_get (heap_after two_sensor_heap [0, 1] ! 0) ''fl_x'' = None \<and>
   heap_after two_sensor_heap [0, 1] ! 0 \<noteq> two_sensor_heap ! 0 \<and>
   heap_after two_sensor_heap [0, 1] ! 1 = two_sensor_heap ! 1"
  by (simp add: heap_after_def extract_common_intrinsics_def two_sensor_heap_def
      record_a_def record_b_def dict_get_def dict_delitem_def dict_contains_def dict_keys_def)

lemma extract_common_intrinsics_frame:
  assumes "rs \<noteq> []" and "valid_ref h (hd rs)" and "wf_dict (h ! hd rs)" and "r \<noteq> hd rs"
  shows "heap_after h rs ! r = h ! r"
  using assms
  by (simp add: heap_after_def extract_common_intrinsics_char valid_ref_def wf_dict_def
      dict_keys_def)

section \<open>Claims about filter_cameras\<close>

lemma list_getitems_FloatIndex:
  "list_getitems xs (map FloatIndex ys) = (if ys = [] then Inr [] else Inl TypeError)"
  by (cases ys) (simp_all add: ebind_def)

lemma subsample_idx_length:
  "0 \<le> max_num_images \<Longrightarrow>
   \<exists>idx. subsample_idx ext n max_num_images = Inr idx \<and> length idx = nat max_num_images"
  by (simp add: subsample_idx_def np_linspace_def np_round_def ebind_def)

text \<open>
  C4 (amended). A count of zero is not "no filtering": it selects no camera, so the
  result is the empty list (the input itself only when the input is empty). A negative
  count other than \<open>-1\<close> yields no list at all: \<^verbatim>\<open>np.linspace\<close> rejects it with a
  \<^verbatim>\<open>ValueError\<close>.
\<close>

theorem filter_cameras_nonpositive:
  assumes "max_num_images = 0 \<or> max_num_images < - 1"
  shows "filter_cameras ext camera_list max_num_images =
         (if max_num_images = 0 then Inr [] else Inl ValueError)"
  using assms
  by (auto simp: filter_cameras_def subsample_idx_def np_linspace_def np_round_def ebind_def)

theorem filter_cameras_nonpositive_witness:
  "((0 :: int) = 0 \<or> (0 :: int) < - 1) \<and>
   filter_cameras plain_externals three_cameras 0 = Inr [] \<and>
   ((- 5 :: int) = 0 \<or> (- 5 :: int) < - 1) \<and>
   filter_cameras plain_externals three_cameras (- 5) = Inl ValueError"
  using filter_cameras_nonpositive [of 0 plain_externals three_cameras]
    filter_cameras_nonpositive [of "- 5" plain_externals three_cameras]
  by simp

theorem filter_cameras_nonpositive_counterexample:
  "filter_cameras plain_externals three_cameras 0 \<noteq> Inr (cameras three_cameras) \<and>
   filter_cameras plain_externals three_cameras (- 2) \<noteq> Inr (cameras three_cameras)"
  by (simp add: filter_cameras_def subsample_idx_def np_linspace_def np_round_def ebind_def
      three_cameras_def)

text \<open>
  C5 (the code does otherwise). Two cameras out of three: the call returns no list of two
  cameras, it raises \<^verbatim>\<open>TypeError\<close>. The indices are the \<^verbatim>\<open>numpy.float64\<close> values that
  \<^verbatim>\<open>np.round\<close> returns (\<^verbatim>\<open>.astype(int)\<close> is missing), and a Python list refuses a float
  subscript whatever its value.
\<close>

theorem filter_cameras_two_of_three:
  "filter_cameras ext three_cameras 2 = Inl TypeError"
  by (simp add: filter_cameras_def subsample_idx_def np_linspace_def np_round_def ebind_def
      three_cameras_def upt_rec)

text \<open>
  The same holds for every camera list and every positive count below its length.
\<close>

lemma filter_cameras_subsample:
  assumes "0 < max_num_images" and "max_num_images < int (length (cameras camera_list))"
  shows "filter_cameras ext camera_list max_num_images = Inl TypeError"
proof -
  from subsample_idx_length [of max_num_images ext "int (length (cameras camera_list))"]
  obtain idx where
    run: "subsample_idx ext (int (length (cameras camera_list))) max_num_images = Inr idx"
    and len: "length idx = nat max_num_images"
    using assms(1) by auto
  have "idx \<noteq> []" using len assms(1) by auto
  then show ?thesis
    using assms run by (simp add: filter_cameras_def ebind_def list_getitems_FloatIndex)
qed

section \<open>Claims about extract_intrinsics\<close>

lemma extract_intrinsics_returns:
  assumes "2 \<le> length (principal_point_px (internals sensor))"
    and "2 \<le> length image_size_px"
    and "3 \<le> length (radial_distortion (internals sensor))"
    and "2 \<le> length (tangential_distortion (internals sensor))"
  shows "\<exists>d. extract_intrinsics sensor image_size_px = Inr d"
  using assms by (auto simp: extract_intrinsics_def ndarray_getitem_def ebind_def Let_def)

text \<open>
  C10. Whenever \<open>extract_intrinsics\<close> returns a record, \<open>fl_x\<close> and \<open>fl_y\<close> are both the
  sensor's focal length, the keys are the eleven fixed names (in this order, none twice),
  and \<open>w\<close> and \<open>h\<close> are the first two entries of the image size truncated to integers.
\<close>

theorem extract_intrinsics_record:
  assumes "extract_intrinsics sensor image_size_px = Inr d"
  shows "dict_get d ''fl_x'' = Some (focal_length_px (internals sensor)) \<and>
         dict_get d ''fl_y'' = Some (focal_length_px (internals sensor)) \<and>
         dict_keys d = intrinsics_keys \<and> IntrinsicsRecord d \<and> length d = 11 \<and>
         dict_get d ''w'' = Some (of_int (py_int (image_size_px ! 0))) \<and>
         dict_get d ''h'' = Some (of_int (py_int (image_size_px ! 1)))"
  using assms
  by (auto simp: extract_intrinsics_def ndarray_getitem_def ebind_def Let_def dict_get_def
      dict_keys_def intrinsics_keys_def IntrinsicsRecord_def wf_dict_def split: if_splits)

theorem extract_intrinsics_record_witness:
  "extract_intrinsics sensor_a [640.9, - 480.5] =
     Inr [(''fl_x'', 1000), (''fl_y'', 1000), (''cx'', 320), (''cy'', 240), (''w'', 640),
          (''h'', - 480), (''k1'', 0), (''k2'', 0), (''k3'', 0), (''p1'', 0), (''p2'', 0)] \<and>
   dict_get [(''fl_x'', 1000), (''fl_y'', 1000), (''cx'', 320), (''cy'', 240), (''w'', 640),
          (''h'', - 480), (''k1'', 0), (''k2'', 0), (''k3'', 0), (''p1'', 0), (''p2'', 0 :: real)]
     ''fl_y'' = Some (focal_length_px (internals sensor_a))"
proof -
  have run: "extract_intrinsics sensor_a [640.9, - 480.5] =
     Inr [(''fl_x'', 1000), (''fl_y'', 1000), (''cx'', 320), (''cy'', 240), (''w'', 640),
          (''h'', - 480), (''k1'', 0), (''k2'', 0), (''k3'', 0), (''p1'', 0), (''p2'', 0)]"
    by (simp add: extract_intrinsics_def ndarray_getitem_def ebind_def Let_def sensor_a_def
        py_int_def)
  show ?thesis
    using extract_intrinsics_record [OF run] run by simp
qed

text \<open>The record of the first example sensor is what the extractor returns for it.\<close>

lemma extract_intrinsics_sensor_a: "extract_intrinsics sensor_a [640, 480] = Inr record_a"
  by (simp add: extract_intrinsics_def ndarray_getitem_def ebind_def Let_def sensor_a_def
      py_int_def record_a_def)

section \<open>make_transforms on an empty camera list\<close>

text \<open>
  C2 (the code does otherwise). With no camera the loop body never runs, the local
  variable \<^verbatim>\<open>common_intrinsics\<close> is never bound, and the \<^verbatim>\<open>return\<close> statement, which unpacks
  it, raises \<^verbatim>\<open>UnboundLocalError\<close>: no document is returned.
\<close>

theorem make_transforms_no_camera:
  "make_transforms ext h [] calibrated sensor_id_to_intrinsics project_dir =
     (Inl UnboundLocalError, h)"
  by (simp add: make_transforms_def)

section \<open>Dictionary displays\<close>

lemma keys_dict_setitem:
  "set (dict_keys (dict_setitem d k v)) = insert k (set (dict_keys d))"
  by (induction d) (auto simp: dict_keys_def)

lemma keys_dict_unpack:
  "set (dict_keys (dict_unpack d extra)) = set (dict_keys d) \<union> set (dict_keys extra)"
proof (induction extra arbitrary: d)
  case Nil
  then show ?case by (simp add: dict_keys_def)
next
  case (Cons kv extra)
  have "set (dict_keys (kv # extra)) = insert (fst kv) (set (dict_keys extra))"
    by (simp add: dict_keys_def)
  then show ?case
    using Cons.IH [of "dict_setitem d (fst kv) (snd kv)"] by (simp add: keys_dict_setitem)
qed

lemma map_of_dict_setitem:
  "map_of (dict_setitem d k v) k' = (if k' = k then Some v else map_of d k')"
  by (induction d) auto

lemma map_of_dict_unpack:
  "map_of (dict_unpack d extra) k = Some x \<Longrightarrow> map_of d k = Some x \<or> (k, x) \<in> set extra"
proof (induction extra arbitrary: d)
  case Nil
  then show ?case by simp
next
  case (Cons kv extra)
  from Cons.IH [of "dict_setitem d (fst kv) (snd kv)"] Cons.prems
  have "map_of (dict_setitem d (fst kv) (snd kv)) k = Some x \<or> (k, x) \<in> set extra"
    by simp
  then show ?case
    by (cases kv) (auto simp: map_of_dict_setitem split: if_splits)
qed

lemma make_frame_key:
  assumes "dict_contains (make_frame transform_matrix path sensor_intrinsics common) k"
    and "k \<noteq> ''transform_matrix''" and "k \<noteq> ''file_path''"
  shows "dict_contains sensor_intrinsics k \<and> \<not> dict_contains common k"
proof -
  have "set (dict_keys (make_frame transform_matrix path sensor_intrinsics common))
        = {''transform_matrix'', ''file_path''}
          \<union> set (dict_keys (frame_intrinsics sensor_intrinsics common))"
    unfolding make_frame_def keys_dict_unpack by (simp add: dict_keys_def)
  then have "k \<in> set (dict_keys (frame_intrinsics sensor_intrinsics common))"
    using assms by (simp add: dict_contains_def)
  then show ?thesis
    by (auto simp: frame_intrinsics_def dict_contains_def dict_keys_def)
qed

section \<open>The reducer only deletes\<close>

lemma set_nth_list_update_filter: "set (h[c := filter P (h ! c)] ! r) \<subseteq> set (h ! r)"
  by (cases "c < length h") (auto simp: nth_list_update list_update_beyond)

lemma scan_items_subset: "set (scan_items h c items ! r) \<subseteq> set (h ! r)"
proof (induction items arbitrary: h)
  case Nil
  then show ?case by simp
next
  case (Cons kv items)
  let ?h1 = "h[c := filter (\<lambda>x. fst x \<noteq> fst kv) (h ! c)]"
  have "scan_items h c (kv # items) = scan_items h c items
        \<or> scan_items h c (kv # items) = scan_items ?h1 c items"
    by (simp add: dict_delitem_def)
  moreover have "set (scan_items ?h1 c items ! r) \<subseteq> set (h ! r)"
    using Cons.IH [of ?h1] set_nth_list_update_filter [of h c _ r] by blast
  ultimately show ?case
    using Cons.IH [of h] by auto
qed

lemma scan_records_subset: "set (scan_records h c rs ! r) \<subseteq> set (h ! r)"
proof (induction rs arbitrary: h)
  case Nil
  then show ?case by simp
next
  case (Cons r' rs)
  show ?case
    using Cons.IH [of "scan_items h c (h ! r')"] scan_items_subset [of h c "h ! r'" r]
    by auto
qed

lemma extract_common_intrinsics_Cons:
  "rs \<noteq> [] \<Longrightarrow> extract_common_intrinsics h rs = (hd rs, scan_records h (hd rs) rs)"
  by (simp add: extract_common_intrinsics_def Let_def hd_conv_nth)

lemma extract_common_intrinsics_keys:
  assumes "rs \<noteq> []" and "extract_common_intrinsics h rs = (c, h')"
    and "dict_contains (h' ! r) k"
  shows "dict_contains (h ! r) k"
proof -
  have "h' = scan_records h (hd rs) rs"
    using assms(1,2) by (auto simp: extract_common_intrinsics_Cons)
  then have "set (h' ! r) \<subseteq> set (h ! r)"
    by (simp add: scan_records_subset)
  then show ?thesis
    using assms(3) by (auto simp: dict_contains_def dict_keys_def)
qed

section \<open>The frame loop\<close>

lemma frames_loop_disjoint:
  assumes "frames_loop ext calibrated table project_dir h frames common camera_datas
             = (Inr (frames', common'), h')"
    and "frames_disjoint frames (h ! hd (map snd table))"
    and "common = None \<or> common = Some (hd (map snd table))"
  shows "frames_disjoint frames' (h' ! hd (map snd table)) \<and>
         (common' = None \<or> common' = Some (hd (map snd table)))"
  using assms
proof (induction camera_datas arbitrary: h frames common)
  case Nil
  then show ?case by simp
next
  case (Cons camera_data rest)
  let ?c = "hd (map snd table)"
  let ?path = "get_camera_absolute_path ext camera_data project_dir"
  from Cons.prems(1) obtain calibrated_camera where
    found: "find (\<lambda>camera. calibrated_id camera = camera_id camera_data)
              (calibrated_cameras calibrated) = Some calibrated_camera"
    by (auto simp: Let_def split: option.splits)
  obtain c1 h1 where ex: "extract_common_intrinsics h (map snd table) = (c1, h1)"
    by (cases "extract_common_intrinsics h (map snd table)")
  from Cons.prems(1) found ex obtain s where
    s: "map_of table (sensor_id calibrated_camera) = Some s"
    by (auto simp: Let_def split: option.splits)
  then have ne: "map snd table \<noteq> []" by auto
  have c1: "c1 = ?c"
    using ex ne by (simp add: extract_common_intrinsics_Cons)
  let ?frame = "make_frame (astype_int ext (get_transform_matrix ext calibrated_camera)) ?path
                  (h1 ! s) (h1 ! c1)"
  have rec: "frames_loop ext calibrated table project_dir h1 (frames @ [?frame]) (Some c1) rest
             = (Inr (frames', common'), h')"
    using Cons.prems(1) found ex s by (simp add: Let_def)
  have old: "frames_disjoint frames (h1 ! ?c)"
    using Cons.prems(2) extract_common_intrinsics_keys [OF ne ex]
    unfolding frames_disjoint_def by blast
  have new: "frames_disjoint [?frame] (h1 ! ?c)"
    unfolding frames_disjoint_def using make_frame_key c1 by auto
  have "frames_disjoint (frames @ [?frame]) (h1 ! ?c)"
    using old new unfolding frames_disjoint_def by auto
  then show ?case
    using Cons.IH [OF rec] c1 by simp
qed

section \<open>Claims about the assembled document\<close>

lemma make_transforms_Inr:
  assumes "make_transforms ext h camera_datas calibrated table project_dir = (Inr doc, h')"
  obtains fs c where
    "frames_loop ext calibrated table project_dir h [] None camera_datas = (Inr (fs, Some c), h')"
    and "doc = dict_unpack [(''camera_model'', Str ''OPENCV''), (''frames'', Frames fs)]
                 (map (\<lambda>kv. (fst kv, Num (snd kv))) (h' ! c))"
  using assms
  by (auto simp: make_transforms_def split: prod.splits sum.splits option.splits)

lemma document_frames:
  assumes "dict_get (dict_unpack [(''camera_model'', Str ''OPENCV''), (''frames'', Frames fs)]
                       (map (\<lambda>kv. (fst kv, Num (snd kv))) common)) ''frames''
           = Some (Frames frames)"
  shows "frames = fs"
  using map_of_dict_unpack [OF assms [unfolded dict_get_def]] by auto

lemma document_key:
  assumes "dict_contains (dict_unpack [(''camera_model'', Str ''OPENCV''), (''frames'', Frames fs)]
                            (map (\<lambda>kv. (fst kv, Num (snd kv))) common)) k"
    and "k \<noteq> ''camera_model''" and "k \<noteq> ''frames''"
  shows "dict_contains common k"
proof -
  have "set (dict_keys (dict_unpack [(''camera_model'', Str ''OPENCV''), (''frames'', Frames fs)]
                          (map (\<lambda>kv. (fst kv, Num (snd kv))) common)))
        = {''camera_model'', ''frames''} \<union> set (dict_keys common)"
    unfolding keys_dict_unpack by (auto simp: dict_keys_def)
  then show ?thesis
    using assms by (simp add: dict_contains_def)
qed

lemma intrinsics_keys_not_structural:
  assumes "k \<in> set intrinsics_keys"
  shows "k \<noteq> ''camera_model''" "k \<noteq> ''frames''" "k \<noteq> ''transform_matrix''" "k \<noteq> ''file_path''"
  using assms by (auto simp: intrinsics_keys_def)

text \<open>
  C9. In a document that \<open>make_transforms\<close> returns, no intrinsics key is both a top-level
  key of the document and a key of one of its frames.
\<close>

theorem make_transforms_disjoint:
  assumes "make_transforms ext h camera_datas calibrated table project_dir = (Inr doc, h')"
    and "dict_get doc ''frames'' = Some (Frames frames)"
    and "frame \<in> set frames"
    and "key \<in> set intrinsics_keys"
  shows "\<not> (dict_contains doc key \<and> dict_contains frame key)"
proof
  assume both: "dict_contains doc key \<and> dict_contains frame key"
  from assms(1) obtain fs c where
    loop: "frames_loop ext calibrated table project_dir h [] None camera_datas
             = (Inr (fs, Some c), h')"
    and doc: "doc = dict_unpack [(''camera_model'', Str ''OPENCV''), (''frames'', Frames fs)]
                      (map (\<lambda>kv. (fst kv, Num (snd kv))) (h' ! c))"
    by (rule make_transforms_Inr)
  have fs: "frames = fs"
    using assms(2) unfolding doc by (rule document_frames)
  have "frames_disjoint [] (h ! hd (map snd table))"
    by (simp add: frames_disjoint_def)
  from frames_loop_disjoint [OF loop this]
  have inv: "frames_disjoint fs (h' ! hd (map snd table))" and c: "c = hd (map snd table)"
    by simp_all
  have "dict_contains doc key" using both by simp
  then have "dict_contains (h' ! c) key"
    unfolding doc
    by (rule document_key) (rule intrinsics_keys_not_structural [OF assms(4)])+
  moreover have "\<not> dict_contains (h' ! c) key"
    using inv assms(3) both intrinsics_keys_not_structural [OF assms(4)] fs c
    unfolding frames_disjoint_def by blast
  ultimately show False by simp
qed

lemma extract_two_sensor_heap:
  "extract_common_intrinsics two_sensor_heap [0, Suc 0] = (0, [shared_part, record_b])"
  by (simp add: extract_common_intrinsics_def two_sensor_heap_def record_a_def record_b_def
      shared_part_def dict_get_def dict_delitem_def dict_contains_def dict_keys_def)

lemma make_transforms_camera_2:
  "make_transforms plain_externals two_sensor_heap [camera_2] two_calibrated two_sensor_table
     ''/p'' = (Inr document_2, [shared_part, record_b])"
  by (simp add: make_transforms_def extract_two_sensor_heap two_sensor_table_def
      two_calibrated_def camera_2_def plain_externals_def get_camera_absolute_path_def
      py_int_def make_frame_def frame_intrinsics_def dict_contains_def
      dict_keys_def shared_part_def record_b_def document_2_def frame_2_def)

theorem make_transforms_disjoint_witness:
  "make_transforms plain_externals two_sensor_heap [camera_2] two_calibrated two_sensor_table
     ''/p'' = (Inr document_2, [shared_part, record_b]) \<and>
   dict_get document_2 ''frames'' = Some (Frames [frame_2]) \<and>
   frame_2 \<in> set [frame_2] \<and> ''fl_x'' \<in> set intrinsics_keys \<and>
   dict_contains frame_2 ''fl_x'' \<and>
   \<not> (dict_contains document_2 ''fl_x'' \<and> dict_contains frame_2 ''fl_x'')"
proof -
  have frames: "dict_get document_2 ''frames'' = Some (Frames [frame_2])"
    by (simp add: dict_get_def document_2_def)
  have key: "''fl_x'' \<in> set intrinsics_keys"
    by (simp add: intrinsics_keys_def)
  have "dict_contains frame_2 ''fl_x''"
    by (simp add: dict_contains_def dict_keys_def frame_2_def)
  then show ?thesis
    using make_transforms_disjoint [OF make_transforms_camera_2 frames _ key, of frame_2]
      make_transforms_camera_2 frames key
    by simp
qed

section \<open>Matching cameras with calibrated cameras\<close>

lemma frames_loop_unmatched:
  assumes "\<forall>c\<in>set pre. \<exists>cc. find (\<lambda>camera. calibrated_id camera = camera_id c)
                                 (calibrated_cameras calibrated) = Some cc
                          \<and> map_of table (sensor_id cc) \<noteq> None"
    and "find (\<lambda>camera. calibrated_id camera = camera_id cam) (calibrated_cameras calibrated)
         = None"
  shows "fst (frames_loop ext calibrated table project_dir h frames common (pre @ cam # post))
         = Inl (RuntimeError (camera_id cam))"
  using assms(1)
proof (induction pre arbitrary: h frames common)
  case Nil
  then show ?case using assms(2) by (simp add: Let_def)
next
  case (Cons c pre)
  from Cons.prems obtain cc s where
    "find (\<lambda>camera. calibrated_id camera = camera_id c) (calibrated_cameras calibrated) = Some cc"
    and "map_of table (sensor_id cc) = Some s"
    by auto
  moreover obtain c1 h1 where "extract_common_intrinsics h (map snd table) = (c1, h1)"
    by (cases "extract_common_intrinsics h (map snd table)")
  moreover have "\<forall>c\<in>set pre. \<exists>cc. find (\<lambda>camera. calibrated_id camera = camera_id c)
                                 (calibrated_cameras calibrated) = Some cc
                          \<and> map_of table (sensor_id cc) \<noteq> None"
    using Cons.prems by simp
  ultimately show ?case
    using Cons.IH by (simp add: Let_def)
qed

lemma frames_loop_some_unmatched:
  assumes "\<exists>cam\<in>set camera_datas.
             find (\<lambda>camera. calibrated_id camera = camera_id cam) (calibrated_cameras calibrated)
             = None"
  shows "\<exists>e. fst (frames_loop ext calibrated table project_dir h frames common camera_datas)
              = Inl e"
  using assms
proof (induction camera_datas arbitrary: h frames common)
  case Nil
  then show ?case by simp
next
  case (Cons c rest)
  obtain c1 h1 where ex: "extract_common_intrinsics h (map snd table) = (c1, h1)"
    by (cases "extract_common_intrinsics h (map snd table)")
  show ?case
  proof (cases "find (\<lambda>camera. calibrated_id camera = camera_id c)
                  (calibrated_cameras calibrated)")
    case None
    then show ?thesis by (simp add: Let_def)
  next
    case (Some cc)
    then have rest: "\<exists>cam\<in>set rest.
        find (\<lambda>camera. calibrated_id camera = camera_id cam) (calibrated_cameras calibrated)
        = None"
      using Cons.prems by auto
    show ?thesis
    proof (cases "map_of table (sensor_id cc)")
      case None
      then show ?thesis using Some ex by (simp add: Let_def)
    next
      case (Some s)
      then show ?thesis
        using \<open>find _ _ = Some cc\<close> ex Cons.IH [OF rest] by (simp add: Let_def)
    qed
  qed
qed

lemma make_transforms_Inl:
  assumes "fst (frames_loop ext calibrated table project_dir h [] None camera_datas) = Inl e"
  shows "fst (make_transforms ext h camera_datas calibrated table project_dir) = Inl e"
  using assms by (auto simp: make_transforms_def split: prod.splits sum.splits option.splits)

section \<open>A second call of the reducer changes nothing\<close>

lemma extract_common_intrinsics_idem:
  assumes ne: "rs \<noteq> []" and c: "hd rs < length h" and d: "distinct (map fst (h ! hd rs))"
    and ex: "extract_common_intrinsics h rs = (c1, h1)"
  shows "extract_common_intrinsics h1 rs = (c1, h1)"
proof -
  let ?c = "hd rs"
  let ?d = "h ! ?c"
  let ?d1 = "filter (\<lambda>kv. agrees_all h rs ?d (fst kv)) ?d"
  have c1: "c1 = ?c" and h1: "h1 = h[?c := ?d1]"
    using ex extract_common_intrinsics_char [OF ne c d] by auto
  have len: "?c < length h1" and h1c: "h1 ! ?c = ?d1"
    using c by (simp_all add: h1)
  have d1: "distinct (map fst ?d1)"
    using d by (rule distinct_filter_keys)
  have m1: "map_of ?d1 k = (if agrees_all h rs ?d k then map_of ?d k else None)" for k
    using map_of_filter_key [of "\<lambda>k. agrees_all h rs ?d k" ?d k] by simp
  have keep: "agrees_all h1 rs ?d1 k" if "agrees_all h rs ?d k" for k
  proof -
    have "agrees ?d1 (h1 ! r) k" if r: "r \<in> set rs" for r
    proof (cases "r = ?c")
      case True
      then show ?thesis using agrees_self [OF d1] h1c by simp
    next
      case False
      then have "h1 ! r = h ! r" by (simp add: h1)
      moreover have "agrees ?d (h ! r) k"
        using \<open>agrees_all h rs ?d k\<close> r by (simp add: agrees_all_def)
      moreover have "map_of ?d1 k = map_of ?d k"
        using \<open>agrees_all h rs ?d k\<close> m1 [of k] by simp
      ultimately show ?thesis
        by (simp add: agrees_def)
    qed
    then show ?thesis by (simp add: agrees_all_def)
  qed
  have "filter (\<lambda>kv. agrees_all h1 rs ?d1 (fst kv)) ?d1 = ?d1"
    unfolding filter_filter by (rule filter_cong) (use keep in auto)
  then have "extract_common_intrinsics h1 rs = (?c, h1[?c := ?d1])"
    using extract_common_intrinsics_char [OF ne len] d1 h1c by simp
  then show ?thesis
    using c1 h1 by simp
qed

section \<open>The frames of a returned document\<close>

lemma frames_loop_stable:
  assumes "extract_common_intrinsics h (map snd table) = (c, h)"
    and "frames_loop ext calibrated table project_dir h frames common camera_datas
           = (Inr (frames', common'), h')"
  shows "h' = h \<and>
         (\<exists>new. frames' = frames @ new \<and>
            list_all2 (frame_built ext calibrated table project_dir h c) camera_datas new)"
  using assms(2)
proof (induction camera_datas arbitrary: frames common)
  case Nil
  then show ?case by simp
next
  case (Cons camera_data rest)
  let ?path = "get_camera_absolute_path ext camera_data project_dir"
  from Cons.prems obtain cc where
    found: "find (\<lambda>camera. calibrated_id camera = camera_id camera_data)
              (calibrated_cameras calibrated) = Some cc"
    by (auto simp: Let_def split: option.splits)
  from Cons.prems found assms(1) obtain s where
    s: "map_of table (sensor_id cc) = Some s"
    by (auto simp: Let_def split: option.splits)
  let ?frame = "make_frame (astype_int ext (get_transform_matrix ext cc)) ?path (h ! s) (h ! c)"
  have rec: "frames_loop ext calibrated table project_dir h (frames @ [?frame]) (Some c) rest
             = (Inr (frames', common'), h')"
    using Cons.prems found assms(1) s by (simp add: Let_def)
  from Cons.IH [OF rec] obtain new where
    h': "h' = h" and new: "frames' = (frames @ [?frame]) @ new"
    and all: "list_all2 (frame_built ext calibrated table project_dir h c) rest new"
    by blast
  have "frame_built ext calibrated table project_dir h c camera_data ?frame"
    unfolding frame_built_def using found s by blast
  then have "list_all2 (frame_built ext calibrated table project_dir h c)
               (camera_data # rest) (?frame # new)"
    using all by simp
  moreover have "frames' = frames @ (?frame # new)"
    using new by simp
  ultimately show ?case
    using h' by blast
qed

lemma make_transforms_frames:
  assumes run: "make_transforms ext h camera_datas calibrated table project_dir = (Inr doc, h')"
    and frames: "dict_get doc ''frames'' = Some (Frames frames)"
    and wf: "\<forall>r\<in>set (map snd table). valid_ref h r \<and> wf_dict (h ! r)"
  shows "list_all2 (frame_built ext calibrated table project_dir h' (hd (map snd table)))
           camera_datas frames"
proof -
  from run obtain fs c where
    loop: "frames_loop ext calibrated table project_dir h [] None camera_datas
             = (Inr (fs, Some c), h')"
    and doc: "doc = dict_unpack [(''camera_model'', Str ''OPENCV''), (''frames'', Frames fs)]
                      (map (\<lambda>kv. (fst kv, Num (snd kv))) (h' ! c))"
    by (rule make_transforms_Inr)
  have fs: "frames = fs"
    using frames unfolding doc by (rule document_frames)
  from loop obtain camera_data rest where cams: "camera_datas = camera_data # rest"
    by (cases camera_datas) auto
  let ?path = "get_camera_absolute_path ext camera_data project_dir"
  from loop cams obtain cc where
    found: "find (\<lambda>camera. calibrated_id camera = camera_id camera_data)
              (calibrated_cameras calibrated) = Some cc"
    by (auto simp: Let_def split: option.splits)
  obtain c1 h1 where ex: "extract_common_intrinsics h (map snd table) = (c1, h1)"
    by (cases "extract_common_intrinsics h (map snd table)")
  from loop cams found ex obtain s where s: "map_of table (sensor_id cc) = Some s"
    by (auto simp: Let_def split: option.splits)
  then have ne: "map snd table \<noteq> []" by auto
  then have "hd (map snd table) \<in> set (map snd table)" by (rule hd_in_set)
  then have ok: "hd (map snd table) < length h" "distinct (map fst (h ! hd (map snd table)))"
    using wf by (auto simp: valid_ref_def wf_dict_def dict_keys_def)
  have c1: "c1 = hd (map snd table)"
    using ex ne by (simp add: extract_common_intrinsics_Cons)
  have stable: "extract_common_intrinsics h1 (map snd table) = (c1, h1)"
    using ne ok ex by (rule extract_common_intrinsics_idem)
  let ?frame = "make_frame (astype_int ext (get_transform_matrix ext cc)) ?path (h1 ! s) (h1 ! c1)"
  have rec: "frames_loop ext calibrated table project_dir h1 ([] @ [?frame]) (Some c1) rest
             = (Inr (fs, Some c), h')"
    using loop cams found ex s by (simp add: Let_def)
  from frames_loop_stable [OF stable rec] obtain new where
    h': "h' = h1" and new: "fs = [?frame] @ new"
    and all: "list_all2 (frame_built ext calibrated table project_dir h1 c1) rest new"
    by auto
  have "frame_built ext calibrated table project_dir h1 c1 camera_data ?frame"
    unfolding frame_built_def using found s by blast
  then show ?thesis
    using all by (simp add: cams fs new h' c1)
qed

lemma find_first_calibrated:
  assumes "first_calibrated cals ident j"
  shows "find (\<lambda>camera. calibrated_id camera = ident) cals = Some (cals ! j)"
  using assms unfolding first_calibrated_def find_Some_iff by blast

text \<open>
  C6. A camera whose id is the id of no calibrated camera makes \<open>make_transforms\<close> fail and
  return no document. The loop stops at the first such camera it reaches: when every
  camera before it was assembled (it has a calibrated camera, whose sensor is in the
  table), the error is the \<^verbatim>\<open>RuntimeError\<close> that carries this camera's id. Conversely, in a
  returned document (over well-formed sensor records) the frame of camera \<open>i\<close> is built
  from the first calibrated camera, in list order, that has its id: from that record's
  pose and that record's sensor.
\<close>

theorem make_transforms_calibrated_camera:
  "(camera_datas = pre @ cam # post \<longrightarrow>
      (\<forall>c\<in>set pre. \<exists>cc. find (\<lambda>camera. calibrated_id camera = camera_id c)
                                (calibrated_cameras calibrated) = Some cc
                         \<and> map_of table (sensor_id cc) \<noteq> None) \<longrightarrow>
      (\<forall>cc\<in>set (calibrated_cameras calibrated). calibrated_id cc \<noteq> camera_id cam) \<longrightarrow>
      fst (make_transforms ext h camera_datas calibrated table project_dir)
        = Inl (RuntimeError (camera_id cam))) \<and>
   ((\<exists>cam\<in>set camera_datas.
       \<forall>cc\<in>set (calibrated_cameras calibrated). calibrated_id cc \<noteq> camera_id cam) \<longrightarrow>
      (\<exists>e. fst (make_transforms ext h camera_datas calibrated table project_dir) = Inl e)) \<and>
   (make_transforms ext h camera_datas calibrated table project_dir = (Inr doc, h') \<longrightarrow>
      dict_get doc ''frames'' = Some (Frames frames) \<longrightarrow>
      (\<forall>r\<in>set (map snd table). valid_ref h r \<and> wf_dict (h ! r)) \<longrightarrow>
      i < length camera_datas \<longrightarrow>
      first_calibrated (calibrated_cameras calibrated) (camera_id (camera_datas ! i)) j \<longrightarrow>
      length frames = length camera_datas \<and>
      (\<exists>s. map_of table (sensor_id (calibrated_cameras calibrated ! j)) = Some s \<and>
           frames ! i =
             make_frame (astype_int ext (get_transform_matrix ext (calibrated_cameras calibrated ! j)))
               (get_camera_absolute_path ext (camera_datas ! i) project_dir)
               (h' ! s) (h' ! hd (map snd table))))"
proof (intro conjI impI)
  assume split: "camera_datas = pre @ cam # post"
    and pre: "\<forall>c\<in>set pre. \<exists>cc. find (\<lambda>camera. calibrated_id camera = camera_id c)
                                (calibrated_cameras calibrated) = Some cc
                         \<and> map_of table (sensor_id cc) \<noteq> None"
    and none: "\<forall>cc\<in>set (calibrated_cameras calibrated). calibrated_id cc \<noteq> camera_id cam"
  have "find (\<lambda>camera. calibrated_id camera = camera_id cam) (calibrated_cameras calibrated)
        = None"
    using none by (simp add: find_None_iff)
  from frames_loop_unmatched [OF pre this]
  show "fst (make_transforms ext h camera_datas calibrated table project_dir)
        = Inl (RuntimeError (camera_id cam))"
    unfolding split by (rule make_transforms_Inl)
next
  assume "\<exists>cam\<in>set camera_datas.
            \<forall>cc\<in>set (calibrated_cameras calibrated). calibrated_id cc \<noteq> camera_id cam"
  then have "\<exists>cam\<in>set camera_datas.
      find (\<lambda>camera. calibrated_id camera = camera_id cam) (calibrated_cameras calibrated) = None"
    by (auto simp: find_None_iff)
  from frames_loop_some_unmatched [OF this] obtain e where
    "fst (frames_loop ext calibrated table project_dir h [] None camera_datas) = Inl e"
    by blast
  then show "\<exists>e. fst (make_transforms ext h camera_datas calibrated table project_dir) = Inl e"
    using make_transforms_Inl by blast
next
  assume run: "make_transforms ext h camera_datas calibrated table project_dir = (Inr doc, h')"
    and frames: "dict_get doc ''frames'' = Some (Frames frames)"
    and wf: "\<forall>r\<in>set (map snd table). valid_ref h r \<and> wf_dict (h ! r)"
    and i: "i < length camera_datas"
    and first: "first_calibrated (calibrated_cameras calibrated) (camera_id (camera_datas ! i)) j"
  have all: "list_all2 (frame_built ext calibrated table project_dir h' (hd (map snd table)))
               camera_datas frames"
    using run frames wf by (rule make_transforms_frames)
  then show "length frames = length camera_datas"
    by (simp add: list_all2_lengthD)
  have "frame_built ext calibrated table project_dir h' (hd (map snd table))
          (camera_datas ! i) (frames ! i)"
    using all i by (simp add: list_all2_conv_all_nth)
  then show "\<exists>s. map_of table (sensor_id (calibrated_cameras calibrated ! j)) = Some s \<and>
           frames ! i =
             make_frame (astype_int ext (get_transform_matrix ext (calibrated_cameras calibrated ! j)))
               (get_camera_absolute_path ext (camera_datas ! i) project_dir)
               (h' ! s) (h' ! hd (map snd table))"
    unfolding frame_built_def find_first_calibrated [OF first] by auto
qed

lemma two_sensor_table_wf:
  "\<forall>r\<in>set (map snd two_sensor_table). valid_ref two_sensor_heap r \<and> wf_dict (two_sensor_heap ! r)"
  by (simp add: two_sensor_table_def valid_ref_def wf_dict_def dict_keys_def two_sensor_heap_def
      record_a_def record_b_def)

lemma first_calibrated_camera_2:
  "first_calibrated (calibrated_cameras two_calibrated) (camera_id ([camera_2] ! 0)) 1"
  by (simp add: first_calibrated_def two_calibrated_def camera_2_def)

theorem make_transforms_calibrated_camera_witness:
  "cameras three_cameras = take 2 (cameras three_cameras) @ cameras three_cameras ! 2 # [] \<and>
   camera_id (cameras three_cameras ! 2) = 3 \<and>
   fst (make_transforms plain_externals two_sensor_heap (cameras three_cameras) two_calibrated
          two_sensor_table ''/p'') = Inl (RuntimeError 3) \<and>
   (\<exists>e. fst (make_transforms plain_externals two_sensor_heap (rev (cameras three_cameras))
               two_calibrated two_sensor_table ''/p'') = Inl e) \<and>
   make_transforms plain_externals two_sensor_heap [camera_2] two_calibrated two_sensor_table
     ''/p'' = (Inr document_2, [shared_part, record_b]) \<and>
   first_calibrated (calibrated_cameras two_calibrated) (camera_id ([camera_2] ! 0)) 1 \<and>
   length [frame_2] = length [camera_2] \<and>
   frame_2 = make_frame
               (astype_int plain_externals (get_transform_matrix plain_externals
                              (calibrated_cameras two_calibrated ! 1)))
               (get_camera_absolute_path plain_externals camera_2 ''/p'') record_b shared_part"
proof -
  let ?cams = "cameras three_cameras"
  have split: "?cams = take 2 ?cams @ ?cams ! 2 # []"
    by (simp add: three_cameras_def)
  have pre: "\<forall>c\<in>set (take 2 ?cams).
      \<exists>cc. find (\<lambda>camera. calibrated_id camera = camera_id c)
                (calibrated_cameras two_calibrated) = Some cc
           \<and> map_of two_sensor_table (sensor_id cc) \<noteq> None"
    by (simp add: three_cameras_def two_calibrated_def two_sensor_table_def)
  have none: "\<forall>cc\<in>set (calibrated_cameras two_calibrated).
      calibrated_id cc \<noteq> camera_id (?cams ! 2)"
    by (simp add: three_cameras_def two_calibrated_def)
  have id3: "camera_id (?cams ! 2) = 3"
    by (simp add: three_cameras_def)
  have fails: "fst (make_transforms plain_externals two_sensor_heap ?cams two_calibrated
                      two_sensor_table ''/p'') = Inl (RuntimeError 3)"
    using make_transforms_calibrated_camera
      [where camera_datas = ?cams and pre = "take 2 ?cams" and cam = "?cams ! 2" and post = "[]"
         and calibrated = two_calibrated and table = two_sensor_table
         and ext = plain_externals and h = two_sensor_heap and project_dir = "''/p''"]
      split pre none id3
    by simp
  have some: "\<exists>cam\<in>set (rev ?cams).
      \<forall>cc\<in>set (calibrated_cameras two_calibrated). calibrated_id cc \<noteq> camera_id cam"
    by (simp add: three_cameras_def two_calibrated_def)
  have no_doc: "\<exists>e. fst (make_transforms plain_externals two_sensor_heap (rev ?cams)
                           two_calibrated two_sensor_table ''/p'') = Inl e"
    using make_transforms_calibrated_camera
      [where camera_datas = "rev ?cams" and calibrated = two_calibrated
         and table = two_sensor_table and ext = plain_externals and h = two_sensor_heap
         and project_dir = "''/p''"]
      some
    by blast
  have frames: "dict_get document_2 ''frames'' = Some (Frames [frame_2])"
    by (simp add: dict_get_def document_2_def)
  have "length [frame_2] = length [camera_2] \<and>
        (\<exists>s. map_of two_sensor_table (sensor_id (calibrated_cameras two_calibrated ! 1)) = Some s \<and>
           [frame_2] ! 0 =
             make_frame (astype_int plain_externals (get_transform_matrix plain_externals
                                       (calibrated_cameras two_calibrated ! 1)))
               (get_camera_absolute_path plain_externals ([camera_2] ! 0) ''/p'')
               ([shared_part, record_b] ! s) ([shared_part, record_b] ! hd (map snd two_sensor_table)))"
    using make_transforms_calibrated_camera
      [where camera_datas = "[camera_2]" and calibrated = two_calibrated
         and table = two_sensor_table and ext = plain_externals and h = two_sensor_heap
         and project_dir = "''/p''" and doc = document_2 and h' = "[shared_part, record_b]"
         and frames = "[frame_2]" and i = 0 and j = 1]
      make_transforms_camera_2 frames two_sensor_table_wf first_calibrated_camera_2
    by simp
  then have built: "frame_2 = make_frame
               (astype_int plain_externals (get_transform_matrix plain_externals
                              (calibrated_cameras two_calibrated ! 1)))
               (get_camera_absolute_path plain_externals camera_2 ''/p'') record_b shared_part"
    by (auto simp: two_sensor_table_def two_calibrated_def)
  show ?thesis
    using split id3 fails no_doc make_transforms_camera_2 first_calibrated_camera_2 built
    by simp
qed

text \<open>
  C3 (the code does otherwise). Sensor 10 is the first sensor of the table and differs
  from sensor 20 in \<open>fl_x\<close> and \<open>fl_y\<close>. The reducer deletes both keys from sensor 10's own
  record, so in the document for a camera of sensor 10 they are neither at the top level
  nor in the camera's frame.
\<close>

theorem make_transforms_first_sensor_keys_lost:
  "make_transforms plain_externals two_sensor_heap [camera_1] two_calibrated two_sensor_table
     ''/p'' = (Inr document_1, [shared_part, record_b]) \<and>
   map_of two_sensor_table 10 = Some 0 \<and>
   dict_get (two_sensor_heap ! 0) ''fl_x'' = Some 1000 \<and>
   \<not> dict_contains document_1 ''fl_x'' \<and>
   dict_get document_1 ''frames'' = Some (Frames [frame_1]) \<and>
   \<not> dict_contains frame_1 ''fl_x''"
proof -
  have "make_transforms plain_externals two_sensor_heap [camera_1] two_calibrated
          two_sensor_table ''/p'' = (Inr document_1, [shared_part, record_b])"
    by (simp add: make_transforms_def extract_two_sensor_heap two_sensor_table_def
        two_calibrated_def camera_1_def plain_externals_def get_camera_absolute_path_def
        py_int_def make_frame_def frame_intrinsics_def dict_contains_def
        dict_keys_def shared_part_def record_b_def document_1_def frame_1_def)
  moreover have "map_of two_sensor_table 10 = Some 0"
    by (simp add: two_sensor_table_def)
  moreover have "dict_get (two_sensor_heap ! 0) ''fl_x'' = Some 1000"
    by (simp add: two_sensor_heap_def record_a_def dict_get_def)
  moreover have "\<not> dict_contains document_1 ''fl_x''"
    by (simp add: document_1_def dict_contains_def dict_keys_def)
  moreover have "dict_get document_1 ''frames'' = Some (Frames [frame_1])"
    by (simp add: document_1_def dict_get_def)
  moreover have "\<not> dict_contains frame_1 ''fl_x''"
    by (simp add: frame_1_def dict_contains_def dict_keys_def)
  ultimately show ?thesis by simp
qed

end
